theory Spec2Isabelle
  imports Complex_Main
begin

section \<open>Python values used by the sampler\<close>

subsection \<open>Exceptions\<close>

text \<open>
  An exception is a value. The constructors carry the message where the source gives one,
  so that the six validation errors of \<^verbatim>\<open>rejection_sampler\<close> can be told apart.
\<close>

datatype error =
    TypeError string
  | ValueError string
  | ZeroDivisionError
  | AttributeError string
  | RecursionError
  | IndexError
  | OtherError string

fun is_TypeError :: "error \<Rightarrow> bool" where
  "is_TypeError (TypeError _) = True"
| "is_TypeError _ = False"

fun is_ValueError :: "error \<Rightarrow> bool" where
  "is_ValueError (ValueError _) = True"
| "is_ValueError _ = False"

subsection \<open>Numbers\<close>

text \<open>
  A float is a finite value, an infinity or NaN. Finite values are exact rationals:
  rounding, the finite range of a double and the sign of zero are not modelled.
  Infinities and NaN are, since they are ordinary float values (\<^verbatim>\<open>float('inf')\<close>) and
  change the control flow of the sampling loop.
\<close>

datatype pyfloat = Finite rat | PosInf | NegInf | NaN

text \<open>
  A number is a Python \<^verbatim>\<open>int\<close> (unbounded), a Python \<^verbatim>\<open>float\<close>, or a
  \<^verbatim>\<open>numpy.float64\<close> scalar, which is what the scipy distributions return. The two
  kinds of float differ in division by zero.
\<close>

datatype pynum = PyInt int | PyFloat pyfloat | NpFloat pyfloat

fun to_float :: "pynum \<Rightarrow> pyfloat" where
  "to_float (PyInt i) = Finite (of_int i)"
| "to_float (PyFloat v) = v"
| "to_float (NpFloat v) = v"

fun is_numpy :: "pynum \<Rightarrow> bool" where
  "is_numpy (NpFloat _) = True"
| "is_numpy _ = False"

text \<open>The sign of a float that is not NaN: \<open>-1\<close>, \<open>0\<close> or \<open>1\<close>.\<close>

fun fsign :: "pyfloat \<Rightarrow> int" where
  "fsign (Finite a) = (if a = 0 then 0 else if 0 < a then 1 else -1)"
| "fsign PosInf = 1"
| "fsign NegInf = -1"
| "fsign NaN = 0"

definition inf_of_sign :: "int \<Rightarrow> pyfloat" where
  "inf_of_sign sg = (if sg = 0 then NaN else if 0 < sg then PosInf else NegInf)"

fun fmul :: "pyfloat \<Rightarrow> pyfloat \<Rightarrow> pyfloat" where
  "fmul NaN _ = NaN"
| "fmul _ NaN = NaN"
| "fmul (Finite a) (Finite b) = Finite (a * b)"
| "fmul a b = inf_of_sign (fsign a * fsign b)"

text \<open>
  IEEE division, as numpy performs it: a zero divisor gives an infinity or NaN (with a
  warning), never an exception.
\<close>

fun fdiv :: "pyfloat \<Rightarrow> pyfloat \<Rightarrow> pyfloat" where
  "fdiv NaN _ = NaN"
| "fdiv _ NaN = NaN"
| "fdiv (Finite a) (Finite b) = (if b = 0 then inf_of_sign (fsign (Finite a)) else Finite (a / b))"
| "fdiv (Finite a) _ = Finite 0"
| "fdiv a (Finite b) = inf_of_sign (fsign a * (if b < 0 then -1 else 1))"
| "fdiv _ _ = NaN"

text \<open>Comparisons: every comparison with NaN is false.\<close>

fun fle :: "pyfloat \<Rightarrow> pyfloat \<Rightarrow> bool" where
  "fle NaN _ = False"
| "fle _ NaN = False"
| "fle (Finite a) (Finite b) = (a \<le> b)"
| "fle NegInf _ = True"
| "fle _ PosInf = True"
| "fle _ _ = False"

fun flt :: "pyfloat \<Rightarrow> pyfloat \<Rightarrow> bool" where
  "flt NaN _ = False"
| "flt _ NaN = False"
| "flt (Finite a) (Finite b) = (a < b)"
| "flt PosInf _ = False"
| "flt _ NegInf = False"
| "flt _ _ = True"

text \<open>\<^verbatim>\<open>a * b\<close>: two ints give an int; otherwise a float, a numpy one if either is.\<close>

fun num_mul :: "pynum \<Rightarrow> pynum \<Rightarrow> pynum" where
  "num_mul (PyInt a) (PyInt b) = PyInt (a * b)"
| "num_mul a b =
     (if is_numpy a \<or> is_numpy b then NpFloat (fmul (to_float a) (to_float b))
      else PyFloat (fmul (to_float a) (to_float b)))"

text \<open>
  \<^verbatim>\<open>a / b\<close>: true division. Between Python ints and floats a zero divisor raises
  \<^verbatim>\<open>ZeroDivisionError\<close>; when either operand is a numpy scalar, numpy divides.
\<close>

definition num_truediv :: "pynum \<Rightarrow> pynum \<Rightarrow> error + pynum" where
  "num_truediv a b =
     (if is_numpy a \<or> is_numpy b then Inr (NpFloat (fdiv (to_float a) (to_float b)))
      else if to_float b = Finite 0 then Inl ZeroDivisionError
      else Inr (PyFloat (fdiv (to_float a) (to_float b))))"

definition num_le :: "pynum \<Rightarrow> pynum \<Rightarrow> bool" where
  "num_le a b = fle (to_float a) (to_float b)"

definition num_gt :: "pynum \<Rightarrow> pynum \<Rightarrow> bool" where
  "num_gt a b = flt (to_float b) (to_float a)"

subsection \<open>Callables and objects\<close>

text \<open>
  A callable takes its positional arguments (numbers) and the state of the world it may
  read and change (the shared pseudorandom generator above all), and returns a number or
  raises.
\<close>

type_synonym 's pyfun = "pynum list \<Rightarrow> 's \<Rightarrow> (error + pynum) \<times> 's"

text \<open>
  A frozen scipy distribution (\<^verbatim>\<open>norm()\<close>, \<^verbatim>\<open>norm(2, 3)\<close>), with the two bound methods
  the wrapper uses. A distribution family (\<^verbatim>\<open>norm\<close>, an instance of \<^verbatim>\<open>rv_continuous\<close>)
  is called with shape, location and scale parameters and returns a frozen distribution,
  or raises (a family with a shape parameter and no default).
\<close>

record 's frozen =
  rvs :: "'s pyfun"
  pdf :: "'s pyfun"

type_synonym 's family = "pynum list \<Rightarrow> error + 's frozen"

text \<open>
  An instance of \<^verbatim>\<open>ProposalDistribution\<close> is its attribute dictionary. A slot holds
  \<^verbatim>\<open>None\<close> (the constructor's default) or a callable.
\<close>

type_synonym 's pd_instance = "(string \<times> 's pyfun option) list"

datatype 's pyobj =
    PNone
  | PBool bool
  | PNum pynum
  | PStr string
  | PList "'s pyobj list"
  | PFunction "'s pyfun"
  | PBuiltin "'s pyfun"
  | PMethod "'s pyfun"
  | PProposal "'s pd_instance"
  | PRvContinuous "'s family"
  | PRvFrozen "'s frozen"

datatype pytype =
    TNone | TBool | TInt | TFloat | TNpFloat64 | TStr | TList
  | TFunction | TBuiltin | TMethod | TProposal | TRvContinuous | TRvFrozen

fun type_of :: "'s pyobj \<Rightarrow> pytype" where
  "type_of PNone = TNone"
| "type_of (PBool _) = TBool"
| "type_of (PNum (PyInt _)) = TInt"
| "type_of (PNum (PyFloat _)) = TFloat"
| "type_of (PNum (NpFloat _)) = TNpFloat64"
| "type_of (PStr _) = TStr"
| "type_of (PList _) = TList"
| "type_of (PFunction _) = TFunction"
| "type_of (PBuiltin _) = TBuiltin"
| "type_of (PMethod _) = TMethod"
| "type_of (PProposal _) = TProposal"
| "type_of (PRvContinuous _) = TRvContinuous"
| "type_of (PRvFrozen _) = TRvFrozen"

text \<open>
  The subclass relation among these types: \<^verbatim>\<open>bool\<close> is a subclass of \<^verbatim>\<open>int\<close> and
  \<^verbatim>\<open>numpy.float64\<close> of \<^verbatim>\<open>float\<close>.
\<close>

fun issubclass :: "pytype \<Rightarrow> pytype \<Rightarrow> bool" where
  "issubclass TBool TInt = True"
| "issubclass TNpFloat64 TFloat = True"
| "issubclass a b = (a = b)"

text \<open>
  \<^verbatim>\<open>isinstance(obj, Union[t1, ..., tn])\<close>, as Python 3.10 and later evaluate it (earlier
  versions refuse a \<^verbatim>\<open>Union\<close> here).
\<close>

definition isinstance :: "'s pyobj \<Rightarrow> pytype list \<Rightarrow> bool" where
  "isinstance obj ts = list_ex (issubclass (type_of obj)) ts"

text \<open>\<^verbatim>\<open>callable(obj)\<close>: functions, built-ins, bound methods and distribution families.\<close>

fun callable :: "'s pyobj \<Rightarrow> bool" where
  "callable (PFunction _) = True"
| "callable (PBuiltin _) = True"
| "callable (PMethod _) = True"
| "callable (PRvContinuous _) = True"
| "callable _ = False"

text \<open>
  \<^verbatim>\<open>obj(*args)\<close> where a number is expected. A family is callable too, but what it
  returns is a distribution and no number; \<^verbatim>\<open>rejection_sampler\<close> calls function objects
  only.
\<close>

fun call :: "'s pyobj \<Rightarrow> 's pyfun" where
  "call (PFunction fn) args s = fn args s"
| "call (PBuiltin fn) args s = fn args s"
| "call (PMethod fn) args s = fn args s"
| "call (PRvContinuous family) args s = (Inl (TypeError ''result is not a number''), s)"
| "call _ args s = (Inl (TypeError ''object is not callable''), s)"

text \<open>The numeric value of an \<^verbatim>\<open>int\<close>, \<^verbatim>\<open>bool\<close> or \<^verbatim>\<open>float\<close> object.\<close>

fun num_value :: "'s pyobj \<Rightarrow> pynum option" where
  "num_value (PBool b) = Some (PyInt (if b then 1 else 0))"
| "num_value (PNum v) = Some v"
| "num_value _ = None"

fun int_value :: "'s pyobj \<Rightarrow> int option" where
  "int_value (PBool b) = Some (if b then 1 else 0)"
| "int_value (PNum (PyInt i)) = Some i"
| "int_value _ = None"

section \<open>The class ProposalDistribution\<close>

text \<open>\<^verbatim>\<open>self.name = value\<close> on the attribute dictionary.\<close>

fun setattr :: "(string \<times> 'v) list \<Rightarrow> string \<Rightarrow> 'v \<Rightarrow> (string \<times> 'v) list" where
  "setattr [] name v = [(name, v)]"
| "setattr ((k, w) # d) name v = (if k = name then (k, v) # d else (k, w) # setattr d name v)"

text \<open>
  \<^verbatim>\<open>__init__(self, sampler=None, density=None)\<close>, run on the fresh instance: both slots
  are always stored.
\<close>

definition ProposalDistribution_init :: "'s pyfun option \<Rightarrow> 's pyfun option \<Rightarrow> 's pd_instance" where
  "ProposalDistribution_init sampler density =
     setattr (setattr [] ''sample'' sampler) ''density'' density"

text \<open>
  \<^verbatim>\<open>from_scipy(self, scipy_distribution, *args)\<close>: the family is called twice with the
  same parameters, \<^verbatim>\<open>rvs\<close> of the first result and \<^verbatim>\<open>pdf\<close> of the second are stored, and
  \<^verbatim>\<open>self\<close> is returned.
\<close>

definition from_scipy :: "'s pd_instance \<Rightarrow> 's family \<Rightarrow> pynum list \<Rightarrow> error + 's pd_instance" where
  "from_scipy self scipy_distribution args =
     (case scipy_distribution args of
        Inl e \<Rightarrow> Inl e
      | Inr d1 \<Rightarrow>
          (let self1 = setattr self ''sample'' (Some (rvs d1)) in
           case scipy_distribution args of
             Inl e \<Rightarrow> Inl e
           | Inr d2 \<Rightarrow> Inr (setattr self1 ''density'' (Some (pdf d2)))))"

text \<open>
  Attribute lookup on an instance: the instance dictionary first, then the functions of
  the class (\<^verbatim>\<open>__init__\<close>, \<^verbatim>\<open>from_scipy\<close>, \<^verbatim>\<open>sample\<close>, \<^verbatim>\<open>density\<close>).
\<close>

datatype 's attr = InstanceAttr "'s pyfun option" | ClassMethod string

definition class_methods :: "string list" where
  "class_methods = [''__init__'', ''from_scipy'', ''sample'', ''density'']"

definition getattr :: "'s pd_instance \<Rightarrow> string \<Rightarrow> error + 's attr" where
  "getattr self name =
     (case map_of self name of
        Some v \<Rightarrow> Inr (InstanceAttr v)
      | None \<Rightarrow>
          if name \<in> set class_methods then Inr (ClassMethod name)
          else Inl (AttributeError name))"

text \<open>
  \<^verbatim>\<open>g.sample(*args)\<close> and \<^verbatim>\<open>g.density(*args)\<close>. When the lookup finds the method of the
  class, its body runs: \<^verbatim>\<open>return self.sample(*args)\<close> looks the same name up on the same
  instance again, and the recursion ends in \<^verbatim>\<open>RecursionError\<close>.
\<close>

definition call_attr :: "'s pd_instance \<Rightarrow> string \<Rightarrow> 's pyfun" where
  "call_attr self name args s =
     (case getattr self name of
        Inl e \<Rightarrow> (Inl e, s)
      | Inr (InstanceAttr None) \<Rightarrow> (Inl (TypeError ''NoneType object is not callable''), s)
      | Inr (InstanceAttr (Some fn)) \<Rightarrow> fn args s
      | Inr (ClassMethod m) \<Rightarrow> (Inl RecursionError, s))"

section \<open>The function rejection_sampler\<close>

subsection \<open>The libraries\<close>

text \<open>
  What the function uses of scipy and numpy is a parameter of the model:
  \<^item> \<open>uniform_rvs\<close> is \<^verbatim>\<open>uniform().rvs()\<close>: it reads and advances the shared generator
    and returns a \<^verbatim>\<open>numpy.float64\<close>;
  \<^item> \<open>np_empty\<close> is \<^verbatim>\<open>numpy.empty\<close>, applied to the object \<^verbatim>\<open>N\<close>: it raises or returns
    a buffer holding whatever the fresh memory holds.
\<close>

record 's env =
  uniform_rvs :: "'s \<Rightarrow> pyfloat \<times> 's"
  np_empty :: "'s pyobj \<Rightarrow> error + pyfloat list"

subsection \<open>Validation of the arguments\<close>

text \<open>
  \<^verbatim>\<open>if isinstance(g, rv_continuous): g = ProposalDistribution().from_scipy(g)\<close>: a family is
  wrapped, with no distribution parameters; a \<^verbatim>\<open>ProposalDistribution\<close> is kept. The last
  equation is never reached after the type check on \<^verbatim>\<open>g\<close>.
\<close>

fun adapt :: "'s pyobj \<Rightarrow> error + 's pd_instance" where
  "adapt (PRvContinuous family) = from_scipy (ProposalDistribution_init None None) family []"
| "adapt (PProposal inst) = Inr inst"
| "adapt _ = Inl (TypeError ''g must be a continuous scipy distribution or a .ProposalDistribution'')"

text \<open>
  The checks of \<^verbatim>\<open>rejection_sampler\<close>, in the order of the source. On success the
  wrapped proposal and the values of \<^verbatim>\<open>M\<close> and \<^verbatim>\<open>N\<close> are returned. The two
  \<open>None\<close> branches are never reached after the type checks before them.
\<close>

definition validate_args ::
  "'s pyobj \<Rightarrow> 's pyobj \<Rightarrow> 's pyobj \<Rightarrow> 's pyobj \<Rightarrow> error + ('s pd_instance \<times> pynum \<times> int)" where
  "validate_args f g M N =
     (if \<not> isinstance f [TFunction] then Inl (TypeError ''f must be a function'')
      else if \<not> isinstance g [TProposal, TRvContinuous] then
        Inl (TypeError ''g must be a continuous scipy distribution or a .ProposalDistribution'')
      else
        (case adapt g of
           Inl e \<Rightarrow> Inl e
         | Inr g' \<Rightarrow>
             if \<not> isinstance M [TInt, TFloat] then
               Inl (TypeError ''M must be an integer or float to scale samples from g by'')
             else
               (case num_value M of
                  None \<Rightarrow> Inl (TypeError ''M must be an integer or float to scale samples from g by'')
                | Some m \<Rightarrow>
                    if num_le m (PyInt 0) then Inl (ValueError ''M must be positive'')
                    else if \<not> isinstance N [TInt] then Inl (TypeError ''N must be an integer'')
                    else
                      (case int_value N of
                         None \<Rightarrow> Inl (TypeError ''N must be an integer'')
                       | Some n \<Rightarrow>
                           if n \<le> 0 then Inl (ValueError ''N must be positive'')
                           else Inr (g', m, n)))))"

subsection \<open>The sampling loop\<close>

text \<open>The helper \<^verbatim>\<open>proposal(x)\<close>: \<^verbatim>\<open>f(x) / (M * g.density(x))\<close>, operands left to right.\<close>

definition proposal ::
  "'s pyobj \<Rightarrow> 's pd_instance \<Rightarrow> pynum \<Rightarrow> pynum \<Rightarrow> 's \<Rightarrow> (error + pynum) \<times> 's" where
  "proposal f g M x s =
     (case call f [x] s of
        (Inl e, s1) \<Rightarrow> (Inl e, s1)
      | (Inr fx, s1) \<Rightarrow>
          (case call_attr g ''density'' [x] s1 of
             (Inl e, s2) \<Rightarrow> (Inl e, s2)
           | (Inr d, s2) \<Rightarrow> (num_truediv fx (num_mul M d), s2)))"

text \<open>
  One iteration up to its test: \<^verbatim>\<open>x = g.sample()\<close>, \<^verbatim>\<open>u = uniform().rvs()\<close> and
  \<^verbatim>\<open>u <= proposal(x)\<close>. The result is the candidate and whether it is accepted.
\<close>

definition draw_and_test ::
  "'s env \<Rightarrow> 's pyobj \<Rightarrow> 's pd_instance \<Rightarrow> pynum \<Rightarrow> 's \<Rightarrow> (error + pynum \<times> bool) \<times> 's" where
  "draw_and_test E f g M s =
     (case call_attr g ''sample'' [] s of
        (Inl e, s1) \<Rightarrow> (Inl e, s1)
      | (Inr x, s1) \<Rightarrow>
          (case uniform_rvs E s1 of
             (u, s2) \<Rightarrow>
               (case proposal f g M x s2 of
                  (Inl e, s3) \<Rightarrow> (Inl e, s3)
                | (Inr r, s3) \<Rightarrow> (Inr (x, num_le (NpFloat u) r), s3))))"

text \<open>
  \<^verbatim>\<open>while n < N\<close>, from the loop state \<open>n\<close>, \<open>k\<close>, \<open>samples\<close> and the state of the
  world. The loop need not end, so the function is partial: \<open>None\<close> is a call that never
  returns. A store into the buffer converts the candidate to a double.
\<close>

partial_function (option) sampling_loop ::
  "'s env \<Rightarrow> 's pyobj \<Rightarrow> 's pd_instance \<Rightarrow> pynum \<Rightarrow> int \<Rightarrow> nat \<Rightarrow> nat \<Rightarrow> pyfloat list \<Rightarrow> 's
     \<Rightarrow> ((error + pyfloat list) \<times> 's) option" where
  "sampling_loop E f g M N n k samples s =
     (if int n < N then
        if num_gt (PyInt (int k)) (num_mul (num_mul M M) (PyInt N)) then Some (Inr samples, s)
        else
          (case draw_and_test E f g M s of
             (Inl e, s') \<Rightarrow> Some (Inl e, s')
           | (Inr (x, accept), s') \<Rightarrow>
               if accept then
                 if n < length samples then
                   sampling_loop E f g M N (Suc n) (Suc k) (samples[n := to_float x]) s'
                 else Some (Inl IndexError, s')
               else sampling_loop E f g M N n (Suc k) samples s')
      else Some (Inr samples, s))"

declare sampling_loop.simps [code]

text \<open>
  The whole function: validation, \<^verbatim>\<open>samples = empty(N)\<close>, \<^verbatim>\<open>n = 0\<close>, \<^verbatim>\<open>k = 0\<close>, the
  loop, \<^verbatim>\<open>return samples\<close>. The result is the returned array or the exception, with the
  state of the world after the call.
\<close>

definition rejection_sampler ::
  "'s env \<Rightarrow> 's pyobj \<Rightarrow> 's pyobj \<Rightarrow> 's pyobj \<Rightarrow> 's pyobj \<Rightarrow> 's
     \<Rightarrow> ((error + pyfloat list) \<times> 's) option" where
  "rejection_sampler E f g M N s =
     (case validate_args f g M N of
        Inl e \<Rightarrow> Some (Inl e, s)
      | Inr (g', M', N') \<Rightarrow>
          (case np_empty E N of
             Inl e \<Rightarrow> Some (Inl e, s)
           | Inr samples \<Rightarrow> sampling_loop E f g' M' N' 0 0 samples s))"

section \<open>Runs of the loop\<close>

text \<open>
  The iterations of the loop seen from outside: the state of the world before iteration
  \<open>j\<close> (counted from 0) when the iterations before it raised nothing, the candidate drawn
  in iteration \<open>j\<close>, whether it is accepted, whether the iteration raises, and whether the
  budget check \<^verbatim>\<open>k > M * M * N\<close> lets iteration \<open>k\<close> run.
\<close>

fun state_before :: "'s env \<Rightarrow> 's pyobj \<Rightarrow> 's pd_instance \<Rightarrow> pynum \<Rightarrow> 's \<Rightarrow> nat \<Rightarrow> 's" where
  "state_before E f g M s 0 = s"
| "state_before E f g M s (Suc j) = snd (draw_and_test E f g M (state_before E f g M s j))"

definition raises_at :: "'s env \<Rightarrow> 's pyobj \<Rightarrow> 's pd_instance \<Rightarrow> pynum \<Rightarrow> 's \<Rightarrow> nat \<Rightarrow> bool" where
  "raises_at E f g M s j = isl (fst (draw_and_test E f g M (state_before E f g M s j)))"

definition accepted_at :: "'s env \<Rightarrow> 's pyobj \<Rightarrow> 's pd_instance \<Rightarrow> pynum \<Rightarrow> 's \<Rightarrow> nat \<Rightarrow> bool" where
  "accepted_at E f g M s j =
     (case fst (draw_and_test E f g M (state_before E f g M s j)) of
        Inl e \<Rightarrow> False
      | Inr (x, accept) \<Rightarrow> accept)"

definition candidate_at :: "'s env \<Rightarrow> 's pyobj \<Rightarrow> 's pd_instance \<Rightarrow> pynum \<Rightarrow> 's \<Rightarrow> nat \<Rightarrow> pyfloat" where
  "candidate_at E f g M s j =
     (case fst (draw_and_test E f g M (state_before E f g M s j)) of
        Inl e \<Rightarrow> NaN
      | Inr (x, accept) \<Rightarrow> to_float x)"

definition within_budget :: "pynum \<Rightarrow> int \<Rightarrow> nat \<Rightarrow> bool" where
  "within_budget M N k = (\<not> num_gt (PyInt (int k)) (num_mul (num_mul M M) (PyInt N)))"

text \<open>
  \<open>N\<close> acceptances occur within the budget, the last of them in iteration \<open>K - 1\<close>: the
  first \<open>K\<close> iterations pass the budget check and raise nothing, and exactly \<open>N\<close> of them
  accept.
\<close>

definition completes_after ::
  "'s env \<Rightarrow> 's pyobj \<Rightarrow> 's pd_instance \<Rightarrow> pynum \<Rightarrow> int \<Rightarrow> 's \<Rightarrow> nat \<Rightarrow> bool" where
  "completes_after E f g M N s K =
     (0 < K \<and> accepted_at E f g M s (K - 1)
      \<and> int (length (filter (accepted_at E f g M s) [0..<K])) = N
      \<and> (\<forall>j<K. within_budget M N j \<and> \<not> raises_at E f g M s j))"

section \<open>Example inputs\<close>

text \<open>
  The state of the world in the examples is a counter that every draw advances.
  \<^item> \<open>const_fn c\<close> is \<^verbatim>\<open>lambda x: c\<close>;
  \<^item> \<open>threshold_fn\<close> is \<^verbatim>\<open>lambda x: 1.0 if x >= 2 else 0.0\<close>;
  \<^item> \<open>counting_sampler\<close> returns the counter as a \<^verbatim>\<open>numpy.float64\<close>;
  \<^item> \<open>half_uniform\<close> is a uniform generator in a state where every draw is \<open>1/2\<close>;
  \<^item> \<open>fresh_buffer junk\<close> is \<^verbatim>\<open>numpy.empty\<close> when the fresh memory holds \<open>junk\<close>
    everywhere;
  \<^item> \<open>example_family\<close> is a distribution family with one parameter, default 1, which is
    the value of its density everywhere.
\<close>

definition const_fn :: "pynum \<Rightarrow> 's pyfun" where
  "const_fn c args s = (Inr c, s)"

definition threshold_fn :: "'s pyfun" where
  "threshold_fn args s =
     (case args of
        [x] \<Rightarrow> (Inr (PyFloat (Finite (if fle (Finite 2) (to_float x) then 1 else 0))), s)
      | _ \<Rightarrow> (Inl (TypeError ''takes 1 positional argument''), s))"

definition counting_sampler :: "nat pyfun" where
  "counting_sampler args s = (Inr (NpFloat (Finite (of_nat s))), Suc s)"

definition half_uniform :: "nat \<Rightarrow> pyfloat \<times> nat" where
  "half_uniform s = (Finite (1 / 2), Suc s)"

definition fresh_buffer :: "pyfloat \<Rightarrow> 's pyobj \<Rightarrow> error + pyfloat list" where
  "fresh_buffer junk N =
     (case int_value N of
        None \<Rightarrow> Inl (TypeError ''expected a sequence of integers or a single integer'')
      | Some n \<Rightarrow> Inr (replicate (nat n) junk))"

definition example_env :: "pyfloat \<Rightarrow> nat env" where
  "example_env junk = \<lparr>uniform_rvs = half_uniform, np_empty = fresh_buffer junk\<rparr>"

definition example_proposal :: "nat pd_instance" where
  "example_proposal =
     ProposalDistribution_init (Some counting_sampler) (Some (const_fn (PyFloat (Finite 1))))"

definition example_family :: "nat family" where
  "example_family params =
     (case params of
        [] \<Rightarrow> Inr \<lparr>rvs = counting_sampler, pdf = const_fn (NpFloat (Finite 1))\<rparr>
      | [p] \<Rightarrow> Inr \<lparr>rvs = counting_sampler, pdf = const_fn (NpFloat (to_float p))\<rparr>
      | _ \<Rightarrow> Inl (TypeError ''too many parameters''))"

text \<open>
  \<open>other_family\<close> is a second family: it has the defaults of \<open>example_family\<close> and
  takes no parameter.
\<close>

definition other_family :: "nat family" where
  "other_family params =
     (case params of
        [] \<Rightarrow> example_family []
      | _ \<Rightarrow> Inl (TypeError ''takes no parameters''))"

section \<open>One iteration and the run of the loop\<close>

lemma draw_and_test_Inr:
  "draw_and_test E f g M s = (Inr (x, a), s') \<longleftrightarrow>
     (\<exists>s1 u s2 r. call_attr g ''sample'' [] s = (Inr x, s1) \<and> uniform_rvs E s1 = (u, s2)
        \<and> proposal f g M x s2 = (Inr r, s') \<and> a = num_le (NpFloat u) r)"
  by (auto simp: draw_and_test_def split: prod.splits sum.splits)

lemma proposal_Inr:
  "proposal f g M x s = (Inr r, s') \<longleftrightarrow>
     (\<exists>fx s1 d. call f [x] s = (Inr fx, s1) \<and> call_attr g ''density'' [x] s1 = (Inr d, s')
        \<and> num_truediv fx (num_mul M d) = Inr r)"
  by (auto simp: proposal_def split: prod.splits sum.splits)

lemma step_cases:
  assumes "\<not> raises_at E f g M s j"
  obtains x where "draw_and_test E f g M (state_before E f g M s j) = (Inr (x, accepted_at E f g M s j), state_before E f g M s (Suc j))"
    and "candidate_at E f g M s j = to_float x"
proof -
  obtain r s' where d: "draw_and_test E f g M (state_before E f g M s j) = (r, s')"
    by (cases "draw_and_test E f g M (state_before E f g M s j)")
  with assms obtain x a where r: "r = Inr (x, a)"
    by (cases r) (auto simp: raises_at_def)
  show thesis
    by (rule that[of x]) (simp_all add: d r accepted_at_def candidate_at_def)
qed

lemma filter_upt_step:
  assumes "k < K"
  shows "filter P [k..<K] = (if P k then k # filter P [Suc k..<K] else filter P [Suc k..<K])"
  using assms by (simp add: upt_conv_Cons)

lemma sampling_loop_run:
  assumes "k \<le> K"
    and "\<forall>j. k \<le> j \<and> j < K \<longrightarrow> within_budget M N j \<and> \<not> raises_at E f g M s j"
    and "int n + int (length (filter (accepted_at E f g M s) [k..<K])) = N"
    and "k < K \<longrightarrow> accepted_at E f g M s (K - 1)"
    and "int (length samples) = N"
  shows "sampling_loop E f g M N n k samples (state_before E f g M s k) =
           Some (Inr (take n samples @ map (candidate_at E f g M s) (filter (accepted_at E f g M s) [k..<K])),
                 state_before E f g M s K)"
  using assms
proof (induction "K - k" arbitrary: n k samples)
  case 0
  then have kK: "k = K" by simp
  with 0 have "int n = N" by simp
  with 0 kK show ?case
    by (subst sampling_loop.simps) simp
next
  case (Suc d)
  then have kK: "k < K" by simp
  let ?acc = "accepted_at E f g M s"
  from kK Suc.prems(4) have "K - 1 \<in> set (filter ?acc [k..<K])" by auto
  then have "0 < length (filter ?acc [k..<K])" by (metis length_pos_if_in_set)
  with Suc.prems(3) have nN: "int n < N" by linarith
  from Suc.prems(2) kK have wb: "within_budget M N k" and nr: "\<not> raises_at E f g M s k" by auto
  from nr obtain x where dr: "draw_and_test E f g M (state_before E f g M s k) = (Inr (x, ?acc k), state_before E f g M s (Suc k))"
    and cx: "candidate_at E f g M s k = to_float x" by (rule step_cases)
  have d: "d = K - Suc k" using Suc.hyps(2) by simp
  have le: "Suc k \<le> K" using kK by simp
  have bud: "\<forall>j. Suc k \<le> j \<and> j < K \<longrightarrow> within_budget M N j \<and> \<not> raises_at E f g M s j"
    using Suc.prems(2) by auto
  have last: "Suc k < K \<longrightarrow> ?acc (K - 1)" using Suc.prems(4) kK by simp
  show ?case
  proof (cases "?acc k")
    case True
    from nN Suc.prems(5) have nl: "n < length samples" by linarith
    have cnt: "int (Suc n) + int (length (filter ?acc [Suc k..<K])) = N"
      using Suc.prems(3) True kK by (simp add: filter_upt_step)
    have len: "int (length (samples[n := to_float x])) = N" using Suc.prems(5) by simp
    have IH: "sampling_loop E f g M N (Suc n) (Suc k) (samples[n := to_float x]) (state_before E f g M s (Suc k)) =
           Some (Inr (take (Suc n) (samples[n := to_float x]) @ map (candidate_at E f g M s) (filter ?acc [Suc k..<K])),
                 state_before E f g M s K)"
      by (rule Suc.hyps(1)[OF d le bud cnt last len])
    have tk: "take (Suc n) (samples[n := to_float x]) = take n samples @ [to_float x]"
      using nl by (simp add: take_Suc_conv_app_nth)
    show ?thesis
      apply (subst sampling_loop.simps)
      using nN wb nl True kK
      by (simp add: within_budget_def dr IH tk filter_upt_step cx del: state_before.simps)
  next
    case False
    have cnt: "int n + int (length (filter ?acc [Suc k..<K])) = N"
      using Suc.prems(3) False kK by (simp add: filter_upt_step)
    have IH: "sampling_loop E f g M N n (Suc k) samples (state_before E f g M s (Suc k)) =
           Some (Inr (take n samples @ map (candidate_at E f g M s) (filter ?acc [Suc k..<K])),
                 state_before E f g M s K)"
      by (rule Suc.hyps(1)[OF d le bud cnt last Suc.prems(5)])
    show ?thesis
      apply (subst sampling_loop.simps)
      using nN wb False kK
      by (simp add: within_budget_def dr IH filter_upt_step del: state_before.simps)
  qed
qed

lemma fle_refl: "u \<noteq> NaN \<Longrightarrow> fle u u"
  by (cases u) simp_all

lemma rejection_sampler_run:
  assumes "validate_args f g M N = Inr (g', M', N')"
    and "np_empty E N = Inr buf" and "int (length buf) = N'"
    and "completes_after E f g' M' N' s K"
  shows "rejection_sampler E f g M N s =
           Some (Inr (map (candidate_at E f g' M' s) (filter (accepted_at E f g' M' s) [0..<K])),
                 state_before E f g' M' s K)"
proof -
  let ?acc = "accepted_at E f g' M' s"
  let ?samples = "map (candidate_at E f g' M' s) (filter ?acc [0..<K])"
  from assms(4) have last: "?acc (K - 1)" and cnt: "int (length (filter ?acc [0..<K])) = N'"
    and ok: "\<forall>j<K. within_budget M' N' j \<and> \<not> raises_at E f g' M' s j"
    by (simp_all add: completes_after_def)
  have "sampling_loop E f g' M' N' 0 0 buf (state_before E f g' M' s 0) =
      Some (Inr (take 0 buf @ ?samples), state_before E f g' M' s K)"
    by (rule sampling_loop_run) (use ok cnt last assms(3) in auto)
  then show ?thesis
    by (simp add: rejection_sampler_def assms(1,2))
qed

section \<open>The accepted samples\<close>

text \<open>
  Claim C1. For valid arguments (validation succeeds and the buffer of length \<open>N\<close> is
  allocated), when \<open>N\<close> acceptances occur within the iteration budget, the last in
  iteration \<open>K - 1\<close>, \<^verbatim>\<open>rejection_sampler\<close> returns an array of length \<open>N\<close>: the
  candidates of the accepting iterations, in order. Every entry was drawn by
  \<^verbatim>\<open>g.sample()\<close> in some iteration \<open>j\<close> and passed \<^verbatim>\<open>u <= f(x) / (M * g.density(x))\<close>
  against the \<open>u\<close> drawn after it in that iteration. The test accepts on equality:
  whenever the ratio equals \<open>u\<close>, the iteration accepts.
\<close>

theorem rejection_sampler_accepted_samples:
  assumes "validate_args f g M N = Inr (g', M', N')"
    and "np_empty E N = Inr buf" and "int (length buf) = N'"
    and "completes_after E f g' M' N' s K"
  shows "\<exists>samples.
      rejection_sampler E f g M N s = Some (Inr samples, state_before E f g' M' s K)
    \<and> int (length samples) = N'
    \<and> samples = map (candidate_at E f g' M' s) (filter (accepted_at E f g' M' s) [0..<K])
    \<and> (\<forall>i<length samples. \<exists>j<K. \<exists>x s1 u s2 fx s3 d s4 r.
          call_attr g' ''sample'' [] (state_before E f g' M' s j) = (Inr x, s1)
        \<and> uniform_rvs E s1 = (u, s2)
        \<and> call f [x] s2 = (Inr fx, s3)
        \<and> call_attr g' ''density'' [x] s3 = (Inr d, s4)
        \<and> num_truediv fx (num_mul M' d) = Inr r
        \<and> num_le (NpFloat u) r
        \<and> samples ! i = to_float x)
    \<and> (\<forall>t x s1 u s2 fx s3 d s4 r.
          call_attr g' ''sample'' [] t = (Inr x, s1)
        \<and> uniform_rvs E s1 = (u, s2)
        \<and> call f [x] s2 = (Inr fx, s3)
        \<and> call_attr g' ''density'' [x] s3 = (Inr d, s4)
        \<and> num_truediv fx (num_mul M' d) = Inr r
        \<and> to_float r = u \<and> u \<noteq> NaN
        \<longrightarrow> draw_and_test E f g' M' t = (Inr (x, True), s4))"
proof -
  let ?acc = "accepted_at E f g' M' s"
  let ?cand = "candidate_at E f g' M' s"
  let ?js = "filter ?acc [0..<K]"
  let ?samples = "map ?cand ?js"
  from assms(4) have K: "0 < K" and last: "?acc (K - 1)" and cnt: "int (length ?js) = N'"
    and ok: "\<forall>j<K. within_budget M' N' j \<and> \<not> raises_at E f g' M' s j"
    by (simp_all add: completes_after_def)
  have res: "rejection_sampler E f g M N s = Some (Inr ?samples, state_before E f g' M' s K)"
    using assms by (rule rejection_sampler_run)
  have len: "int (length ?samples) = N'" using cnt by simp
  have each: "\<exists>j<K. \<exists>x s1 u s2 fx s3 d s4 r.
          call_attr g' ''sample'' [] (state_before E f g' M' s j) = (Inr x, s1)
        \<and> uniform_rvs E s1 = (u, s2)
        \<and> call f [x] s2 = (Inr fx, s3)
        \<and> call_attr g' ''density'' [x] s3 = (Inr d, s4)
        \<and> num_truediv fx (num_mul M' d) = Inr r
        \<and> num_le (NpFloat u) r
        \<and> ?samples ! i = to_float x" if i: "i < length ?samples" for i
  proof -
    from i have "?js ! i \<in> set ?js" by (simp only: length_map nth_mem)
    then have "?js ! i \<in> set [0..<K] \<and> ?acc (?js ! i)" by (simp only: set_filter mem_Collect_eq)
    then have jK: "?js ! i < K" and acc: "?acc (?js ! i)" by simp_all
    from ok jK have "\<not> raises_at E f g' M' s (?js ! i)" by simp
    then obtain x where dr: "draw_and_test E f g' M' (state_before E f g' M' s (?js ! i)) =
        (Inr (x, ?acc (?js ! i)), state_before E f g' M' s (Suc (?js ! i)))"
      and cx: "?cand (?js ! i) = to_float x" by (rule step_cases)
    from dr acc obtain s1 u s2 r where
        1: "call_attr g' ''sample'' [] (state_before E f g' M' s (?js ! i)) = (Inr x, s1)"
      and 2: "uniform_rvs E s1 = (u, s2)"
      and 3: "proposal f g' M' x s2 = (Inr r, state_before E f g' M' s (Suc (?js ! i)))"
      and 4: "num_le (NpFloat u) r"
      unfolding draw_and_test_Inr by auto
    from 3 obtain fx s3 d where
        5: "call f [x] s2 = (Inr fx, s3)"
      and 6: "call_attr g' ''density'' [x] s3 = (Inr d, state_before E f g' M' s (Suc (?js ! i)))"
      and 7: "num_truediv fx (num_mul M' d) = Inr r"
      unfolding proposal_Inr by auto
    have 8: "?samples ! i = to_float x" using i cx by simp
    from jK 1 2 5 6 7 4 8 show ?thesis by blast
  qed
  have boundary: "draw_and_test E f g' M' t = (Inr (x, True), s4)"
    if "call_attr g' ''sample'' [] t = (Inr x, s1)" "uniform_rvs E s1 = (u, s2)"
       "call f [x] s2 = (Inr fx, s3)" "call_attr g' ''density'' [x] s3 = (Inr d, s4)"
       "num_truediv fx (num_mul M' d) = Inr r" "to_float r = u" "u \<noteq> NaN"
    for t x s1 u s2 fx s3 d s4 r
    using that by (simp add: draw_and_test_def proposal_def num_le_def fle_refl)
  show ?thesis
    apply (rule exI[of _ ?samples])
    apply (intro conjI)
    subgoal by (rule res)
    subgoal by (rule len)
    subgoal by (rule refl)
    subgoal using each by blast
    subgoal using boundary by blast
    done
qed

theorem rejection_sampler_accepted_samples_witness:
  "validate_args (PFunction threshold_fn) (PProposal example_proposal) (PNum (PyInt 1)) (PNum (PyInt 1))
     = Inr (example_proposal, PyInt 1, 1)
   \<and> np_empty (example_env (Finite 7)) (PNum (PyInt 1)) = Inr [Finite 7]
   \<and> completes_after (example_env (Finite 7)) (PFunction threshold_fn) example_proposal (PyInt 1) 1 0 2
   \<and> rejection_sampler (example_env (Finite 7)) (PFunction threshold_fn) (PProposal example_proposal)
        (PNum (PyInt 1)) (PNum (PyInt 1)) 0 = Some (Inr [Finite 2], 4)
   \<and> uniform_rvs (example_env (Finite 7)) 1 = (Finite (1 / 2), 2)
   \<and> num_truediv (PyFloat (Finite (1 / 2))) (num_mul (PyInt 1) (PyFloat (Finite 1)))
        = Inr (PyFloat (Finite (1 / 2)))
   \<and> draw_and_test (example_env (Finite 7)) (PFunction (const_fn (PyFloat (Finite (1 / 2)))))
        example_proposal (PyInt 1) 0 = (Inr (NpFloat (Finite 0), True), 2)"
proof -
  let ?E = "example_env (Finite 7)"
  let ?f = "PFunction threshold_fn :: nat pyobj"
  let ?h = "PFunction (const_fn (PyFloat (Finite (1 / 2)))) :: nat pyobj"
  have v: "validate_args ?f (PProposal example_proposal) (PNum (PyInt 1)) (PNum (PyInt 1))
     = Inr (example_proposal, PyInt 1, 1)"
    by (simp add: validate_args_def isinstance_def num_le_def)
  have b: "np_empty ?E (PNum (PyInt 1)) = Inr [Finite 7]"
    by code_simp
  have l: "int (length [Finite 7]) = 1" by simp
  have c: "completes_after ?E ?f example_proposal (PyInt 1) 1 0 2"
    by code_simp
  have s: "state_before ?E ?f example_proposal (PyInt 1) 0 2 = 4"
    by code_simp
  have m: "map (candidate_at ?E ?f example_proposal (PyInt 1) 0)
     (filter (accepted_at ?E ?f example_proposal (PyInt 1) 0) [0..<2]) = [Finite 2]"
    by code_simp
  note T = rejection_sampler_accepted_samples[OF v b l c]
  from T s m
  have run: "rejection_sampler ?E ?f (PProposal example_proposal) (PNum (PyInt 1)) (PNum (PyInt 1)) 0
      = Some (Inr [Finite 2], 4)"
    by auto
  have x: "call_attr example_proposal ''sample'' [] 0 = (Inr (NpFloat (Finite 0)), 1)"
    by (simp add: example_proposal_def call_attr_def getattr_def ProposalDistribution_init_def
        counting_sampler_def)
  have u: "uniform_rvs ?E 1 = (Finite (1 / 2), 2)"
    by (simp add: example_env_def half_uniform_def)
  have fx: "call ?h [NpFloat (Finite 0)] 2 = (Inr (PyFloat (Finite (1 / 2))), 2)"
    by (simp add: const_fn_def)
  have d: "call_attr example_proposal ''density'' [NpFloat (Finite 0)] 2 = (Inr (PyFloat (Finite 1)), 2)"
    by (simp add: example_proposal_def call_attr_def getattr_def ProposalDistribution_init_def
        const_fn_def)
  have r: "num_truediv (PyFloat (Finite (1 / 2))) (num_mul (PyInt 1) (PyFloat (Finite 1)))
      = Inr (PyFloat (Finite (1 / 2)))"
    by (simp add: num_truediv_def)
  have vh: "validate_args ?h (PProposal example_proposal) (PNum (PyInt 1)) (PNum (PyInt 1))
     = Inr (example_proposal, PyInt 1, 1)"
    by (simp add: validate_args_def isinstance_def num_le_def)
  have ch: "completes_after ?E ?h example_proposal (PyInt 1) 1 0 1"
    by code_simp
  from rejection_sampler_accepted_samples[OF vh b l ch]
  have "\<forall>t x s1 u s2 fx s3 d s4 r.
          call_attr example_proposal ''sample'' [] t = (Inr x, s1)
        \<and> uniform_rvs ?E s1 = (u, s2)
        \<and> call ?h [x] s2 = (Inr fx, s3)
        \<and> call_attr example_proposal ''density'' [x] s3 = (Inr d, s4)
        \<and> num_truediv fx (num_mul (PyInt 1) d) = Inr r
        \<and> to_float r = u \<and> u \<noteq> NaN
        \<longrightarrow> draw_and_test ?E ?h example_proposal (PyInt 1) t = (Inr (x, True), s4)"
    by blast
  moreover have "to_float (PyFloat (Finite (1 / 2))) = Finite (1 / 2)" and "Finite (1 / 2) \<noteq> NaN"
    by simp_all
  ultimately
  have eq: "draw_and_test ?E ?h example_proposal (PyInt 1) 0 = (Inr (NpFloat (Finite 0), True), 2)"
    using x u fx d r by blast
  from v b c run u r eq show ?thesis by blast
qed

section \<open>Validation of the arguments\<close>

lemma isinstance_TFunction: "isinstance f [TFunction] \<longleftrightarrow> type_of f = TFunction"
  by (cases "type_of f") (simp_all add: isinstance_def)

lemma isinstance_g:
  "isinstance g [TProposal, TRvContinuous] \<longleftrightarrow> type_of g = TProposal \<or> type_of g = TRvContinuous"
  by (cases "type_of g") (simp_all add: isinstance_def)

lemma isinstance_M:
  "isinstance M [TInt, TFloat] \<longleftrightarrow> type_of M \<in> {TBool, TInt, TFloat, TNpFloat64}"
  by (cases "type_of M") (simp_all add: isinstance_def)

lemma isinstance_N: "isinstance N [TInt] \<longleftrightarrow> type_of N \<in> {TBool, TInt}"
  by (cases "type_of N") (simp_all add: isinstance_def)

lemma num_value_isinstance: "num_value M = Some m \<Longrightarrow> isinstance M [TInt, TFloat]"
  by (cases M rule: type_of.cases) (auto simp: isinstance_def)

lemma int_value_isinstance: "int_value N = Some n \<Longrightarrow> isinstance N [TInt]"
  by (cases N rule: type_of.cases) (auto simp: isinstance_def)

lemma validate_args_ok:
  assumes "type_of f = TFunction"
    and "type_of g = TProposal \<or> type_of g = TRvContinuous" and "adapt g = Inr g'"
    and "num_value M = Some m" and "\<not> num_le m (PyInt 0)"
    and "int_value N = Some n" and "0 < n"
  shows "validate_args f g M N = Inr (g', m, n)"
  using assms num_value_isinstance[OF assms(4)] int_value_isinstance[OF assms(6)]
  by (simp add: validate_args_def isinstance_TFunction isinstance_g)

lemma validate_args_not_function:
  "type_of f \<noteq> TFunction \<Longrightarrow> validate_args f g M N = Inl (TypeError ''f must be a function'')"
  by (simp add: validate_args_def isinstance_TFunction)

lemma rejection_sampler_invalid:
  "validate_args f g M N = Inl e \<Longrightarrow> rejection_sampler E f g M N s = Some (Inl e, s)"
  by (simp add: rejection_sampler_def)

lemma validate_args_Inr:
  assumes "validate_args f g M N = Inr (g', M', N')"
  shows "type_of f = TFunction" "type_of g = TProposal \<or> type_of g = TRvContinuous"
    "adapt g = Inr g'" "num_value M = Some M'" "\<not> num_le M' (PyInt 0)"
    "int_value N = Some N'" "0 < N'"
  using assms
  by (auto simp: validate_args_def isinstance_TFunction isinstance_g
      split: if_splits sum.splits option.splits)

text \<open>
  Claim C3, as stated, fails: a built-in function is callable, and \<^verbatim>\<open>rejection_sampler\<close>
  rejects it with the error of the check on \<^verbatim>\<open>f\<close>.
\<close>

theorem non_function_callable_rejected:
  "callable (PBuiltin (const_fn (PyFloat (Finite 1))) :: nat pyobj)
   \<and> rejection_sampler (example_env (Finite 7)) (PBuiltin (const_fn (PyFloat (Finite 1))))
        (PProposal example_proposal) (PNum (PyInt 1)) (PNum (PyInt 1)) 0
      = Some (Inl (TypeError ''f must be a function''), 0)"
  by (simp add: rejection_sampler_def validate_args_def isinstance_def)

text \<open>
  Claim C3, amended. \<^verbatim>\<open>rejection_sampler\<close> raises \<^verbatim>\<open>TypeError("f must be a function")\<close>,
  before anything else happens, whenever \<^verbatim>\<open>f\<close> is not an instance of
  \<^verbatim>\<open>types.FunctionType\<close> (a function made by \<^verbatim>\<open>def\<close> or \<^verbatim>\<open>lambda\<close>); other callables are
  rejected too. Every such function passes: with the other arguments valid, validation
  succeeds.
\<close>

theorem rejection_sampler_f_check:
  "(type_of f \<noteq> TFunction \<longrightarrow>
      rejection_sampler E f g M N s = Some (Inl (TypeError ''f must be a function''), s))
   \<and> (type_of f = TFunction \<and> num_value M = Some m \<and> \<not> num_le m (PyInt 0)
        \<and> int_value N = Some n \<and> 0 < n \<longrightarrow>
      validate_args f (PProposal inst) M N = Inr (inst, m, n))"
  by (simp add: validate_args_not_function rejection_sampler_invalid validate_args_ok)

theorem rejection_sampler_f_check_witness:
  "type_of (PStr ''f'' :: nat pyobj) \<noteq> TFunction
   \<and> rejection_sampler (example_env (Finite 7)) (PStr ''f'') (PProposal example_proposal)
        (PNum (PyInt 1)) (PNum (PyInt 1)) 0 = Some (Inl (TypeError ''f must be a function''), 0)
   \<and> type_of (PFunction threshold_fn :: nat pyobj) = TFunction
   \<and> validate_args (PFunction threshold_fn) (PProposal example_proposal) (PNum (PyInt 1)) (PNum (PyInt 1))
      = Inr (example_proposal, PyInt 1, 1)"
  using rejection_sampler_f_check[of "PStr ''f''" "example_env (Finite 7)" "PProposal example_proposal"
      "PNum (PyInt 1)" "PNum (PyInt 1)" 0]
    rejection_sampler_f_check[where f = "PFunction threshold_fn" and M = "PNum (PyInt 1)" and m = "PyInt 1"
      and N = "PNum (PyInt 1)" and n = 1 and inst = example_proposal]
  by (simp add: num_le_def)

text \<open>
  Claim C4. With the arguments before it valid, each invalid argument raises its error:
  \<^verbatim>\<open>TypeError\<close> when \<^verbatim>\<open>g\<close> is neither a \<^verbatim>\<open>ProposalDistribution\<close> nor a distribution
  family, when \<^verbatim>\<open>M\<close> is not an \<^verbatim>\<open>int\<close> or \<^verbatim>\<open>float\<close>, when \<^verbatim>\<open>N\<close> is not an \<^verbatim>\<open>int\<close>;
  \<^verbatim>\<open>ValueError\<close> when \<^verbatim>\<open>M <= 0\<close> or \<^verbatim>\<open>N <= 0\<close>. The error is raised before any sampling:
  the state of the world after the call is the state before it, whatever the generator
  and the allocator are.
\<close>

theorem rejection_sampler_argument_errors:
  "(type_of f = TFunction \<and> type_of g \<noteq> TProposal \<and> type_of g \<noteq> TRvContinuous \<longrightarrow>
      rejection_sampler E f g M N s =
        Some (Inl (TypeError ''g must be a continuous scipy distribution or a .ProposalDistribution''), s))
   \<and> (type_of f = TFunction \<and> (type_of g = TProposal \<or> type_of g = TRvContinuous) \<and> adapt g = Inr g'
        \<and> type_of M \<notin> {TBool, TInt, TFloat, TNpFloat64} \<longrightarrow>
      rejection_sampler E f g M N s =
        Some (Inl (TypeError ''M must be an integer or float to scale samples from g by''), s))
   \<and> (type_of f = TFunction \<and> (type_of g = TProposal \<or> type_of g = TRvContinuous) \<and> adapt g = Inr g'
        \<and> num_value M = Some m \<and> num_le m (PyInt 0) \<longrightarrow>
      rejection_sampler E f g M N s = Some (Inl (ValueError ''M must be positive''), s))
   \<and> (type_of f = TFunction \<and> (type_of g = TProposal \<or> type_of g = TRvContinuous) \<and> adapt g = Inr g'
        \<and> num_value M = Some m \<and> \<not> num_le m (PyInt 0) \<and> type_of N \<notin> {TBool, TInt} \<longrightarrow>
      rejection_sampler E f g M N s = Some (Inl (TypeError ''N must be an integer''), s))
   \<and> (type_of f = TFunction \<and> (type_of g = TProposal \<or> type_of g = TRvContinuous) \<and> adapt g = Inr g'
        \<and> num_value M = Some m \<and> \<not> num_le m (PyInt 0) \<and> int_value N = Some n \<and> n \<le> 0 \<longrightarrow>
      rejection_sampler E f g M N s = Some (Inl (ValueError ''N must be positive''), s))"
proof (intro conjI impI; elim conjE)
  assume "type_of f = TFunction" "type_of g \<noteq> TProposal" "type_of g \<noteq> TRvContinuous"
  then show "rejection_sampler E f g M N s =
        Some (Inl (TypeError ''g must be a continuous scipy distribution or a .ProposalDistribution''), s)"
    by (intro rejection_sampler_invalid) (simp add: validate_args_def isinstance_TFunction isinstance_g)
next
  assume "type_of f = TFunction" "type_of g = TProposal \<or> type_of g = TRvContinuous" "adapt g = Inr g'"
    "type_of M \<notin> {TBool, TInt, TFloat, TNpFloat64}"
  then show "rejection_sampler E f g M N s =
        Some (Inl (TypeError ''M must be an integer or float to scale samples from g by''), s)"
    by (intro rejection_sampler_invalid)
       (simp add: validate_args_def isinstance_TFunction isinstance_g isinstance_M)
next
  assume "type_of f = TFunction" "type_of g = TProposal \<or> type_of g = TRvContinuous" "adapt g = Inr g'"
    "num_value M = Some m" "num_le m (PyInt 0)"
  then show "rejection_sampler E f g M N s = Some (Inl (ValueError ''M must be positive''), s)"
    by (intro rejection_sampler_invalid)
       (simp add: validate_args_def isinstance_TFunction isinstance_g num_value_isinstance)
next
  assume "type_of f = TFunction" "type_of g = TProposal \<or> type_of g = TRvContinuous" "adapt g = Inr g'"
    "num_value M = Some m" "\<not> num_le m (PyInt 0)" "type_of N \<notin> {TBool, TInt}"
  then show "rejection_sampler E f g M N s = Some (Inl (TypeError ''N must be an integer''), s)"
    by (intro rejection_sampler_invalid)
       (simp add: validate_args_def isinstance_TFunction isinstance_g num_value_isinstance isinstance_N)
next
  assume "type_of f = TFunction" "type_of g = TProposal \<or> type_of g = TRvContinuous" "adapt g = Inr g'"
    "num_value M = Some m" "\<not> num_le m (PyInt 0)" "int_value N = Some n" "n \<le> 0"
  then show "rejection_sampler E f g M N s = Some (Inl (ValueError ''N must be positive''), s)"
    by (intro rejection_sampler_invalid)
       (simp add: validate_args_def isinstance_TFunction isinstance_g num_value_isinstance int_value_isinstance)
qed

theorem rejection_sampler_argument_errors_witness:
  "rejection_sampler (example_env (Finite 7)) (PFunction threshold_fn) (PStr ''g'')
        (PNum (PyInt 1)) (PNum (PyInt 1)) 0
      = Some (Inl (TypeError ''g must be a continuous scipy distribution or a .ProposalDistribution''), 0)
   \<and> rejection_sampler (example_env (Finite 7)) (PFunction threshold_fn) (PProposal example_proposal)
        (PStr ''5'') (PNum (PyInt 1)) 0
      = Some (Inl (TypeError ''M must be an integer or float to scale samples from g by''), 0)
   \<and> rejection_sampler (example_env (Finite 7)) (PFunction threshold_fn) (PProposal example_proposal)
        (PNum (PyInt (- 1))) (PNum (PyInt 1)) 0
      = Some (Inl (ValueError ''M must be positive''), 0)
   \<and> rejection_sampler (example_env (Finite 7)) (PFunction threshold_fn) (PRvContinuous example_family)
        (PNum (PyInt 5)) (PStr ''0'') 0
      = Some (Inl (TypeError ''N must be an integer''), 0)
   \<and> rejection_sampler (example_env (Finite 7)) (PFunction threshold_fn) (PProposal example_proposal)
        (PNum (PyInt 5)) (PNum (PyInt 0)) 0
      = Some (Inl (ValueError ''N must be positive''), 0)"
proof -
  let ?E = "example_env (Finite 7)"
  let ?f = "PFunction threshold_fn :: nat pyobj"
  let ?g = "PProposal example_proposal"
  have a: "adapt (PRvContinuous example_family) =
      Inr (ProposalDistribution_init (Some counting_sampler) (Some (const_fn (NpFloat (Finite 1)))))"
    by (simp add: from_scipy_def example_family_def ProposalDistribution_init_def)
  note T = rejection_sampler_argument_errors
  have 1: "rejection_sampler ?E ?f (PStr ''g'') (PNum (PyInt 1)) (PNum (PyInt 1)) 0
      = Some (Inl (TypeError ''g must be a continuous scipy distribution or a .ProposalDistribution''), 0)"
    using T[where f = ?f and g = "PStr ''g''", THEN conjunct1] by simp
  have 2: "rejection_sampler ?E ?f ?g (PStr ''5'') (PNum (PyInt 1)) 0
      = Some (Inl (TypeError ''M must be an integer or float to scale samples from g by''), 0)"
    using T[where f = ?f and g = ?g and g' = example_proposal and M = "PStr ''5''",
        THEN conjunct2, THEN conjunct1] by simp
  have 3: "rejection_sampler ?E ?f ?g (PNum (PyInt (- 1))) (PNum (PyInt 1)) 0
      = Some (Inl (ValueError ''M must be positive''), 0)"
    using T[where f = ?f and g = ?g and g' = example_proposal and M = "PNum (PyInt (- 1))"
        and m = "PyInt (- 1)", THEN conjunct2, THEN conjunct2, THEN conjunct1]
    by (simp add: num_le_def)
  have 4: "rejection_sampler ?E ?f (PRvContinuous example_family) (PNum (PyInt 5)) (PStr ''0'') 0
      = Some (Inl (TypeError ''N must be an integer''), 0)"
    using T[where f = ?f and g = "PRvContinuous example_family" and M = "PNum (PyInt 5)"
        and m = "PyInt 5" and N = "PStr ''0''",
        THEN conjunct2, THEN conjunct2, THEN conjunct2, THEN conjunct1] a
    by (simp add: num_le_def)
  have 5: "rejection_sampler ?E ?f ?g (PNum (PyInt 5)) (PNum (PyInt 0)) 0
      = Some (Inl (ValueError ''N must be positive''), 0)"
    using T[where f = ?f and g = ?g and g' = example_proposal and M = "PNum (PyInt 5)"
        and m = "PyInt 5" and N = "PNum (PyInt 0)" and n = 0,
        THEN conjunct2, THEN conjunct2, THEN conjunct2, THEN conjunct2]
    by (simp add: num_le_def)
  from 1 2 3 4 5 show ?thesis by blast
qed

text \<open>
  Claim C8. \<^verbatim>\<open>bool\<close> is a subclass of \<^verbatim>\<open>int\<close>, so a Boolean passes both type checks.
  \<^verbatim>\<open>M = True\<close> has the value 1, which is positive: with the other arguments valid,
  validation succeeds with \<open>M = 1\<close>. The same holds for \<^verbatim>\<open>N = True\<close>, with \<open>N = 1\<close>.
\<close>

theorem bool_arguments_pass_validation:
  "issubclass TBool TInt
   \<and> isinstance (PBool b) [TInt, TFloat] \<and> isinstance (PBool b) [TInt]
   \<and> num_value (PBool True) = Some (PyInt 1) \<and> \<not> num_le (PyInt 1) (PyInt 0)
   \<and> (type_of f = TFunction \<and> int_value N = Some n \<and> 0 < n \<longrightarrow>
        validate_args f (PProposal inst) (PBool True) N = Inr (inst, PyInt 1, n))
   \<and> (type_of f = TFunction \<and> num_value M = Some m \<and> \<not> num_le m (PyInt 0) \<longrightarrow>
        validate_args f (PProposal inst) M (PBool True) = Inr (inst, m, 1))"
  by (simp add: validate_args_ok isinstance_def num_le_def)

theorem bool_arguments_pass_validation_witness:
  "validate_args (PFunction threshold_fn) (PProposal example_proposal) (PBool True) (PNum (PyInt 5))
      = Inr (example_proposal, PyInt 1, 5)
   \<and> validate_args (PFunction threshold_fn) (PProposal example_proposal) (PNum (PyFloat (Finite 2))) (PBool True)
      = Inr (example_proposal, PyFloat (Finite 2), 1)"
  using bool_arguments_pass_validation[where f = "PFunction threshold_fn" and N = "PNum (PyInt 5)" and n = 5
      and inst = example_proposal and M = "PNum (PyFloat (Finite 2))" and m = "PyFloat (Finite 2)"
      and b = True]
  by (auto simp: num_le_def)

section \<open>The class ProposalDistribution: properties\<close>

text \<open>
  Claim C9. The constructor without arguments stores \<^verbatim>\<open>None\<close> in the instance
  attributes \<^verbatim>\<open>sample\<close> and \<^verbatim>\<open>density\<close>. Whatever the constructor is given, the lookup of
  either name finds the instance attribute, never the method of the class (which is found
  only on an instance without that attribute), so the bodies of the methods are never run.
  Calling \<^verbatim>\<open>sample\<close> or \<^verbatim>\<open>density\<close> on a default instance raises \<^verbatim>\<open>TypeError\<close>: \<^verbatim>\<open>None\<close> is
  not callable.
\<close>

theorem default_instance_not_callable:
  "map_of (ProposalDistribution_init None None) ''sample'' = Some None
   \<and> map_of (ProposalDistribution_init None None) ''density'' = Some None
   \<and> getattr (ProposalDistribution_init sampler density) ''sample'' = Inr (InstanceAttr sampler)
   \<and> getattr (ProposalDistribution_init sampler density) ''density'' = Inr (InstanceAttr density)
   \<and> getattr [] ''sample'' = Inr (ClassMethod ''sample'')
   \<and> getattr [] ''density'' = Inr (ClassMethod ''density'')
   \<and> call_attr (ProposalDistribution_init None None) ''sample'' args s
        = (Inl (TypeError ''NoneType object is not callable''), s)
   \<and> call_attr (ProposalDistribution_init None None) ''density'' args s
        = (Inl (TypeError ''NoneType object is not callable''), s)"
  by (simp add: ProposalDistribution_init_def getattr_def call_attr_def class_methods_def)

lemma map_of_setattr: "map_of (setattr d name v) = (map_of d)(name \<mapsto> v)"
  by (induction d name v rule: setattr.induct) auto

lemma from_scipy_Inr:
  "family params = Inr d \<Longrightarrow>
   from_scipy self family params =
     Inr (setattr (setattr self ''sample'' (Some (rvs d))) ''density'' (Some (pdf d)))"
  by (simp add: from_scipy_def)

lemma from_scipy_default:
  "family params = Inr d \<Longrightarrow>
   from_scipy (ProposalDistribution_init a b) family params =
     Inr (ProposalDistribution_init (Some (rvs d)) (Some (pdf d)))"
  by (simp add: from_scipy_Inr ProposalDistribution_init_def)

lemma call_attr_init_density:
  "call_attr (ProposalDistribution_init a (Some dens)) ''density'' args s = dens args s"
  by (simp add: call_attr_def getattr_def ProposalDistribution_init_def)

lemma call_attr_init_sample:
  "call_attr (ProposalDistribution_init (Some smp) b) ''sample'' args s = smp args s"
  by (simp add: call_attr_def getattr_def ProposalDistribution_init_def)

text \<open>
  Claim C5. For a family whose call with the given parameters returns the frozen
  distribution \<open>d\<close>: the instance made by \<^verbatim>\<open>from_scipy\<close> and the instance constructed
  directly from \<^verbatim>\<open>d.rvs\<close> and \<^verbatim>\<open>d.pdf\<close> return the same density at every point, the
  density of \<open>d\<close>. And \<^verbatim>\<open>from_scipy\<close> returns \<^verbatim>\<open>self\<close>: the instance it was called on,
  with \<^verbatim>\<open>sample\<close> and \<^verbatim>\<open>density\<close> rebound and every other attribute as it was. (An
  object is modelled by its attributes.)
\<close>

theorem from_scipy_same_density:
  assumes "family params = Inr d"
  shows "(\<exists>g. from_scipy (ProposalDistribution_init None None) family params = Inr g
            \<and> call_attr g ''density'' [x] s
                = call_attr (ProposalDistribution_init (Some (rvs d)) (Some (pdf d))) ''density'' [x] s
            \<and> call_attr g ''density'' [x] s = pdf d [x] s)
       \<and> (\<exists>r. from_scipy self family params = Inr r
            \<and> map_of r = (map_of self)(''sample'' \<mapsto> Some (rvs d), ''density'' \<mapsto> Some (pdf d)))"
proof (intro conjI)
  have "from_scipy (ProposalDistribution_init None None) family params
      = Inr (ProposalDistribution_init (Some (rvs d)) (Some (pdf d)))"
    using assms by (rule from_scipy_default)
  then show "\<exists>g. from_scipy (ProposalDistribution_init None None) family params = Inr g
            \<and> call_attr g ''density'' [x] s
                = call_attr (ProposalDistribution_init (Some (rvs d)) (Some (pdf d))) ''density'' [x] s
            \<and> call_attr g ''density'' [x] s = pdf d [x] s"
    by (simp add: call_attr_init_density)
next
  show "\<exists>r. from_scipy self family params = Inr r
            \<and> map_of r = (map_of self)(''sample'' \<mapsto> Some (rvs d), ''density'' \<mapsto> Some (pdf d))"
    using assms by (simp add: from_scipy_Inr map_of_setattr)
qed

theorem from_scipy_same_density_witness:
  "example_family [] = Inr \<lparr>rvs = counting_sampler, pdf = const_fn (NpFloat (Finite 1))\<rparr>
   \<and> (\<exists>g. from_scipy (ProposalDistribution_init None None) example_family [] = Inr g
         \<and> call_attr g ''density'' [PyInt 0] 0 = (Inr (NpFloat (Finite 1)), 0)
         \<and> call_attr (ProposalDistribution_init (Some counting_sampler) (Some (const_fn (NpFloat (Finite 1)))))
              ''density'' [PyInt 0] 0 = (Inr (NpFloat (Finite 1)), 0))"
proof -
  have d: "example_family [] = Inr \<lparr>rvs = counting_sampler, pdf = const_fn (NpFloat (Finite 1))\<rparr>"
    by (simp add: example_family_def)
  have "\<exists>g. from_scipy (ProposalDistribution_init None None) example_family [] = Inr g
      \<and> call_attr g ''density'' [PyInt 0] 0
          = call_attr (ProposalDistribution_init (Some counting_sampler) (Some (const_fn (NpFloat (Finite 1)))))
              ''density'' [PyInt 0] 0
      \<and> call_attr g ''density'' [PyInt 0] 0 = const_fn (NpFloat (Finite 1)) [PyInt 0] 0"
    using from_scipy_same_density[where family = example_family and params = "[]" and x = "PyInt 0"
        and s = 0 and self = "[]", OF d, THEN conjunct1]
    by simp
  then obtain g where "from_scipy (ProposalDistribution_init None None) example_family [] = Inr g"
    and "call_attr g ''density'' [PyInt 0] 0
          = call_attr (ProposalDistribution_init (Some counting_sampler) (Some (const_fn (NpFloat (Finite 1)))))
              ''density'' [PyInt 0] 0"
    and "call_attr g ''density'' [PyInt 0] 0 = const_fn (NpFloat (Finite 1)) [PyInt 0] 0"
    by blast
  with d show ?thesis by (auto simp: const_fn_def)
qed

text \<open>
  Claim C10. A distribution family passed as \<^verbatim>\<open>g\<close> is wrapped by \<^verbatim>\<open>from_scipy\<close> with no
  parameters: after validation \<^verbatim>\<open>sample\<close> and \<^verbatim>\<open>density\<close> are \<^verbatim>\<open>rvs\<close> and \<^verbatim>\<open>pdf\<close> of the
  family called with its defaults, and the call behaves as with the
  \<^verbatim>\<open>ProposalDistribution\<close> constructed from those two. Nothing else of the family is used:
  two families with the same defaults give the same result.
\<close>

theorem family_wrapped_with_defaults:
  "(validate_args f (PRvContinuous family) M N = Inr (g', M', N') \<longrightarrow>
      (\<exists>d. family [] = Inr d
          \<and> getattr g' ''sample'' = Inr (InstanceAttr (Some (rvs d)))
          \<and> getattr g' ''density'' = Inr (InstanceAttr (Some (pdf d)))))
   \<and> (family [] = Inr d \<longrightarrow>
        rejection_sampler E f (PRvContinuous family) M N s
          = rejection_sampler E f (PProposal (ProposalDistribution_init (Some (rvs d)) (Some (pdf d)))) M N s)
   \<and> (family [] = family2 [] \<longrightarrow>
        rejection_sampler E f (PRvContinuous family) M N s
          = rejection_sampler E f (PRvContinuous family2) M N s)"
proof (intro conjI impI)
  assume v: "validate_args f (PRvContinuous family) M N = Inr (g', M', N')"
  then have a: "from_scipy (ProposalDistribution_init None None) family [] = Inr g'"
    using validate_args_Inr(3)[OF v] by simp
  then obtain d where d: "family [] = Inr d"
    by (cases "family []") (simp_all add: from_scipy_def)
  with a have "g' = ProposalDistribution_init (Some (rvs d)) (Some (pdf d))"
    by (simp add: from_scipy_default)
  then have "getattr g' ''sample'' = Inr (InstanceAttr (Some (rvs d)))"
    "getattr g' ''density'' = Inr (InstanceAttr (Some (pdf d)))"
    by (simp_all add: getattr_def ProposalDistribution_init_def)
  with d show "\<exists>d. family [] = Inr d
          \<and> getattr g' ''sample'' = Inr (InstanceAttr (Some (rvs d)))
          \<and> getattr g' ''density'' = Inr (InstanceAttr (Some (pdf d)))"
    by blast
next
  assume "family [] = Inr d"
  then show "rejection_sampler E f (PRvContinuous family) M N s
      = rejection_sampler E f (PProposal (ProposalDistribution_init (Some (rvs d)) (Some (pdf d)))) M N s"
    by (simp add: rejection_sampler_def validate_args_def from_scipy_default isinstance_def)
next
  assume "family [] = family2 []"
  then have "adapt (PRvContinuous family) = adapt (PRvContinuous family2)"
    by (cases "family2 []") (simp_all add: from_scipy_def)
  then have "validate_args f (PRvContinuous family) M N = validate_args f (PRvContinuous family2) M N"
    by (simp add: validate_args_def isinstance_def del: adapt.simps)
  then show "rejection_sampler E f (PRvContinuous family) M N s
      = rejection_sampler E f (PRvContinuous family2) M N s"
    by (simp add: rejection_sampler_def)
qed

theorem family_wrapped_with_defaults_witness:
  "example_family [] = other_family []
   \<and> example_family [PyInt 3] \<noteq> other_family [PyInt 3]
   \<and> rejection_sampler (example_env (Finite 7)) (PFunction threshold_fn) (PRvContinuous example_family)
        (PNum (PyInt 1)) (PNum (PyInt 1)) 0
      = rejection_sampler (example_env (Finite 7)) (PFunction threshold_fn) (PRvContinuous other_family)
        (PNum (PyInt 1)) (PNum (PyInt 1)) 0
   \<and> rejection_sampler (example_env (Finite 7)) (PFunction threshold_fn) (PRvContinuous example_family)
        (PNum (PyInt 1)) (PNum (PyInt 1)) 0
      = rejection_sampler (example_env (Finite 7)) (PFunction threshold_fn)
          (PProposal (ProposalDistribution_init (Some counting_sampler) (Some (const_fn (NpFloat (Finite 1))))))
          (PNum (PyInt 1)) (PNum (PyInt 1)) 0
   \<and> validate_args (PFunction threshold_fn) (PRvContinuous example_family) (PNum (PyInt 1)) (PNum (PyInt 1))
      = Inr (ProposalDistribution_init (Some counting_sampler) (Some (const_fn (NpFloat (Finite 1)))), PyInt 1, 1)
   \<and> getattr (ProposalDistribution_init (Some counting_sampler) (Some (const_fn (NpFloat (Finite 1)))))
        ''density'' = Inr (InstanceAttr (Some (const_fn (NpFloat (Finite 1)) :: nat pyfun)))"
proof -
  let ?g = "ProposalDistribution_init (Some counting_sampler) (Some (const_fn (NpFloat (Finite 1))))"
  have e: "example_family [] = other_family []" by (simp add: other_family_def)
  have n: "example_family [PyInt 3] \<noteq> other_family [PyInt 3]"
    by (simp add: other_family_def example_family_def)
  have d: "example_family [] = Inr \<lparr>rvs = counting_sampler, pdf = const_fn (NpFloat (Finite 1))\<rparr>"
    by (simp add: example_family_def)
  have v: "validate_args (PFunction threshold_fn) (PRvContinuous example_family) (PNum (PyInt 1)) (PNum (PyInt 1))
      = Inr (?g, PyInt 1, 1)"
    by (simp add: validate_args_def isinstance_def num_le_def
        from_scipy_default[where family = example_family and params = "[]", OF d])
  note T = family_wrapped_with_defaults[where family = example_family and E = "example_env (Finite 7)"
      and f = "PFunction threshold_fn" and M = "PNum (PyInt 1)" and N = "PNum (PyInt 1)" and s = 0]
  from T[where ?family2.0 = other_family] e
  have 1: "rejection_sampler (example_env (Finite 7)) (PFunction threshold_fn) (PRvContinuous example_family)
        (PNum (PyInt 1)) (PNum (PyInt 1)) 0
      = rejection_sampler (example_env (Finite 7)) (PFunction threshold_fn) (PRvContinuous other_family)
        (PNum (PyInt 1)) (PNum (PyInt 1)) 0" by blast
  from T[where d = "\<lparr>rvs = counting_sampler, pdf = const_fn (NpFloat (Finite 1))\<rparr>"] d
  have 2: "rejection_sampler (example_env (Finite 7)) (PFunction threshold_fn) (PRvContinuous example_family)
        (PNum (PyInt 1)) (PNum (PyInt 1)) 0
      = rejection_sampler (example_env (Finite 7)) (PFunction threshold_fn) (PProposal ?g)
          (PNum (PyInt 1)) (PNum (PyInt 1)) 0" by simp
  from T[where g' = ?g and M' = "PyInt 1" and N' = 1] v
  obtain d' where "example_family [] = Inr d'"
    and "getattr ?g ''density'' = Inr (InstanceAttr (Some (pdf d')))" by blast
  with d have 3: "getattr ?g ''density'' = Inr (InstanceAttr (Some (const_fn (NpFloat (Finite 1)))))"
    by simp
  from e n 1 2 v 3 show ?thesis by blast
qed

section \<open>Division by a zero density\<close>

lemma to_float_num_mul: "to_float (num_mul a b) = fmul (to_float a) (to_float b)"
  by (cases a; cases b) simp_all

lemma within_budget_float:
  "within_budget M N k \<longleftrightarrow>
     \<not> flt (fmul (fmul (to_float M) (to_float M)) (Finite (of_int N))) (Finite (of_nat k))"
  by (simp add: within_budget_def num_gt_def to_float_num_mul)

lemma first_iteration_within_budget:
  assumes "\<not> num_le M (PyInt 0)" and "0 < N"
  shows "within_budget M N 0"
proof (cases "to_float M")
  case (Finite m)
  with assms(1) have "0 < m" by (simp add: num_le_def)
  with assms(2) have "0 \<le> m * m * of_int N" by simp
  with Finite show ?thesis by (simp add: within_budget_float)
next
  case PosInf
  with assms(2) show ?thesis by (simp add: within_budget_float inf_of_sign_def)
next
  case NegInf
  with assms(1) show ?thesis by (simp add: num_le_def)
next
  case NaN
  then show ?thesis by (simp add: within_budget_float)
qed

lemma numpy_zero_density_does_not_raise:
  "num_truediv fx (num_mul M (NpFloat (Finite 0))) \<noteq> Inl ZeroDivisionError"
  by (cases M) (simp_all add: num_truediv_def)

text \<open>
  Claim C6. Nothing guards the division in \<^verbatim>\<open>proposal\<close>. For valid arguments with a
  finite \<open>M\<close>, when the density at the first candidate is a Python zero (an \<^verbatim>\<open>int\<close> or
  \<^verbatim>\<open>float\<close>, and \<^verbatim>\<open>f(x)\<close> and \<open>M\<close> are not numpy scalars), the division raises
  \<^verbatim>\<open>ZeroDivisionError\<close>, and \<^verbatim>\<open>rejection_sampler\<close> raises it to its caller: the first
  iteration always runs, and nothing catches the exception.
\<close>

theorem zero_density_raises:
  assumes "validate_args f g M N = Inr (g', M', N')"
    and "np_empty E N = Inr buf"
    and "call_attr g' ''sample'' [] s = (Inr x, s1)"
    and "uniform_rvs E s1 = (u, s2)"
    and "call f [x] s2 = (Inr fx, s3)"
    and "call_attr g' ''density'' [x] s3 = (Inr d, s4)"
    and "to_float d = Finite 0"
    and "\<not> is_numpy fx" and "\<not> is_numpy d" and "\<not> is_numpy M'" and "to_float M' = Finite m"
  shows "num_truediv fx (num_mul M' d) = Inl ZeroDivisionError
       \<and> proposal f g' M' x s2 = (Inl ZeroDivisionError, s4)
       \<and> rejection_sampler E f g M N s = Some (Inl ZeroDivisionError, s4)"
proof -
  have np: "\<not> is_numpy (num_mul M' d)"
    using assms(9,10) by (cases M'; cases d) simp_all
  have z: "to_float (num_mul M' d) = Finite 0"
    using assms(7,11) by (simp add: to_float_num_mul)
  have div: "num_truediv fx (num_mul M' d) = Inl ZeroDivisionError"
    using np z assms(8) by (simp add: num_truediv_def)
  have pr: "proposal f g' M' x s2 = (Inl ZeroDivisionError, s4)"
    using assms(5,6) div by (simp add: proposal_def)
  have dr: "draw_and_test E f g' M' s = (Inl ZeroDivisionError, s4)"
    using assms(3,4) pr by (simp add: draw_and_test_def)
  have N': "0 < N'" and M': "\<not> num_le M' (PyInt 0)"
    using validate_args_Inr[OF assms(1)] by simp_all
  have wb: "within_budget M' N' 0" using M' N' by (rule first_iteration_within_budget)
  have "sampling_loop E f g' M' N' 0 0 buf s = Some (Inl ZeroDivisionError, s4)"
    apply (subst sampling_loop.simps)
    using N' wb dr by (simp add: within_budget_def)
  then have "rejection_sampler E f g M N s = Some (Inl ZeroDivisionError, s4)"
    by (simp add: rejection_sampler_def assms(1,2))
  with div pr show ?thesis by simp
qed

theorem zero_density_raises_witness:
  "validate_args (PFunction (const_fn (PyFloat (Finite 1))))
      (PProposal (ProposalDistribution_init (Some counting_sampler) (Some (const_fn (PyFloat (Finite 0))))))
      (PNum (PyInt 1)) (PNum (PyInt 1))
     = Inr (ProposalDistribution_init (Some counting_sampler) (Some (const_fn (PyFloat (Finite 0)))), PyInt 1, 1)
   \<and> call_attr (ProposalDistribution_init (Some counting_sampler) (Some (const_fn (PyFloat (Finite 0)))))
        ''density'' [NpFloat (Finite 0)] 2 = (Inr (PyFloat (Finite 0)), 2)
   \<and> rejection_sampler (example_env (Finite 7)) (PFunction (const_fn (PyFloat (Finite 1))))
        (PProposal (ProposalDistribution_init (Some counting_sampler) (Some (const_fn (PyFloat (Finite 0))))))
        (PNum (PyInt 1)) (PNum (PyInt 1)) 0
      = Some (Inl ZeroDivisionError, 2)"
proof -
  let ?g = "ProposalDistribution_init (Some counting_sampler) (Some (const_fn (PyFloat (Finite 0))))"
  let ?f = "PFunction (const_fn (PyFloat (Finite 1))) :: nat pyobj"
  have v: "validate_args ?f (PProposal ?g) (PNum (PyInt 1)) (PNum (PyInt 1)) = Inr (?g, PyInt 1, 1)"
    by (simp add: validate_args_def isinstance_def num_le_def)
  have b: "np_empty (example_env (Finite 7)) (PNum (PyInt 1)) = Inr [Finite 7]"
    by (simp add: example_env_def fresh_buffer_def)
  have s: "call_attr ?g ''sample'' [] 0 = (Inr (NpFloat (Finite 0)), 1)"
    by (simp add: call_attr_init_sample counting_sampler_def)
  have u: "uniform_rvs (example_env (Finite 7)) 1 = (Finite (1 / 2), 2)"
    by (simp add: example_env_def half_uniform_def)
  have fx: "call ?f [NpFloat (Finite 0)] 2 = (Inr (PyFloat (Finite 1)), 2)"
    by (simp add: const_fn_def)
  have d: "call_attr ?g ''density'' [NpFloat (Finite 0)] 2 = (Inr (PyFloat (Finite 0)), 2)"
    by (simp add: call_attr_init_density const_fn_def)
  from zero_density_raises[OF v b s u fx d, of 1]
  have "rejection_sampler (example_env (Finite 7)) ?f (PProposal ?g) (PNum (PyInt 1)) (PNum (PyInt 1)) 0
      = Some (Inl ZeroDivisionError, 2)"
    by simp
  with v d show ?thesis by simp
qed

section \<open>Termination\<close>

text \<open>
  When the budget \<^verbatim>\<open>M * M * N\<close> is finite the loop returns, whatever is drawn: the check
  \<^verbatim>\<open>k > M * M * N\<close> fires at the latest when \<open>k\<close> passes the budget.
\<close>

lemma sampling_loop_returns_when_budget_finite:
  assumes "to_float (num_mul (num_mul M M) (PyInt N)) = Finite b"
  shows "\<exists>r. sampling_loop E f g M N n k samples s = Some r"
proof (induction "nat \<lfloor>b\<rfloor> + 1 - k" arbitrary: n k samples s)
  case 0
  then have "\<lfloor>b\<rfloor> < int k" by linarith
  then have "b < of_nat k" by (metis floor_less_iff of_int_of_nat_eq)
  then have "num_gt (PyInt (int k)) (num_mul (num_mul M M) (PyInt N))"
    using assms by (simp add: num_gt_def)
  then show ?case by (subst sampling_loop.simps) simp
next
  case (Suc d)
  have d: "d = nat \<lfloor>b\<rfloor> + 1 - Suc k" using Suc.hyps(2) by simp
  obtain r t where dr: "draw_and_test E f g M s = (r, t)" by (cases "draw_and_test E f g M s")
  show ?case
  proof (cases r)
    case (Inl e)
    with dr show ?thesis by (subst sampling_loop.simps) simp
  next
    case (Inr xa)
    obtain x a where xa: "xa = (x, a)" by (cases xa)
    from Suc.hyps(1)[OF d, of "Suc n" "samples[n := to_float x]" t]
    obtain r1 where 1: "sampling_loop E f g M N (Suc n) (Suc k) (samples[n := to_float x]) t = Some r1" by blast
    from Suc.hyps(1)[OF d, of n samples t]
    obtain r2 where 2: "sampling_loop E f g M N n (Suc k) samples t = Some r2" by blast
    show ?thesis
      by (subst sampling_loop.simps) (simp add: dr Inr xa 1 2)
  qed
qed

text \<open>
  A loop in which no budget check fires and every iteration rejects never returns.
\<close>

lemma sampling_loop_never_returns:
  assumes "sampling_loop E f g M N n k samples s = Some y"
  shows "\<not> ((\<forall>j. within_budget M N j)
            \<and> (\<forall>t. \<exists>x t'. draw_and_test E f g M t = (Inr (x, False), t'))
            \<and> int n < N)"
proof (rule sampling_loop.raw_induct[where P = "\<lambda>E f g M N n k samples s y.
          \<not> ((\<forall>j. within_budget M N j)
            \<and> (\<forall>t. \<exists>x t'. draw_and_test E f g M t = (Inr (x, False), t'))
            \<and> int n < N)", OF _ assms], goal_cases)
  case (1 loop E f g M N n k samples s y)
  show ?case
  proof
    assume h: "(\<forall>j. within_budget M N j)
            \<and> (\<forall>t. \<exists>x t'. draw_and_test E f g M t = (Inr (x, False), t'))
            \<and> int n < N"
    then obtain x t' where d: "draw_and_test E f g M s = (Inr (x, False), t')" by blast
    from h have "\<not> num_gt (PyInt (int k)) (num_mul (num_mul M M) (PyInt N))"
      by (simp add: within_budget_def)
    with h d "1"(2) have "loop E f g M N n (Suc k) samples t' = Some y" by simp
    from "1"(1)[OF this] h show False by blast
  qed
qed

lemma half_uniform_rejects_zero_ratio:
  "draw_and_test (example_env junk) (PFunction (const_fn (PyFloat (Finite 0)))) example_proposal
     (PyFloat PosInf) t
   = (Inr (NpFloat (Finite (of_nat t)), False), Suc (Suc t))"
  by (simp add: draw_and_test_def proposal_def example_proposal_def call_attr_init_sample
      call_attr_init_density counting_sampler_def const_fn_def example_env_def half_uniform_def
      num_truediv_def num_le_def inf_of_sign_def)

text \<open>
  \<^verbatim>\<open>M = float('inf')\<close> is a float and passes validation. The budget \<^verbatim>\<open>M * M * N\<close> is
  infinite, so \<^verbatim>\<open>k > M * M * N\<close> is false for every \<open>k\<close>. With \<^verbatim>\<open>f = lambda x: 0.0\<close> the
  ratio is \<open>0\<close>, and while the generator draws \<open>1/2\<close> no candidate is accepted.
\<close>

lemma infinite_envelope_call:
  "validate_args (PFunction (const_fn (PyFloat (Finite 0)))) (PProposal example_proposal)
      (PNum (PyFloat PosInf)) (PNum (PyInt 1)) = Inr (example_proposal, PyFloat PosInf, 1)
   \<and> rejection_sampler (example_env (Finite 7)) (PFunction (const_fn (PyFloat (Finite 0))))
        (PProposal example_proposal) (PNum (PyFloat PosInf)) (PNum (PyInt 1)) 0 = None"
proof -
  let ?E = "example_env (Finite 7)"
  let ?f = "PFunction (const_fn (PyFloat (Finite 0))) :: nat pyobj"
  have v: "validate_args ?f (PProposal example_proposal) (PNum (PyFloat PosInf)) (PNum (PyInt 1))
      = Inr (example_proposal, PyFloat PosInf, 1)"
    by (simp add: validate_args_def isinstance_def num_le_def)
  have b: "np_empty ?E (PNum (PyInt 1)) = Inr [Finite 7]"
    by (simp add: example_env_def fresh_buffer_def)
  have wb: "\<forall>j. within_budget (PyFloat PosInf) 1 j"
    by (simp add: within_budget_float inf_of_sign_def)
  have rej: "\<forall>t. \<exists>x t'. draw_and_test ?E ?f example_proposal (PyFloat PosInf) t = (Inr (x, False), t')"
    by (simp add: half_uniform_rejects_zero_ratio)
  have "sampling_loop ?E ?f example_proposal (PyFloat PosInf) 1 0 0 [Finite 7] 0 = None"
  proof (cases "sampling_loop ?E ?f example_proposal (PyFloat PosInf) 1 0 0 [Finite 7] 0")
    case None
    then show ?thesis .
  next
    case (Some y)
    from sampling_loop_never_returns[OF Some] wb rej show ?thesis by simp
  qed
  then have "rejection_sampler ?E ?f (PProposal example_proposal) (PNum (PyFloat PosInf)) (PNum (PyInt 1)) 0 = None"
    by (simp add: rejection_sampler_def v b)
  with v show ?thesis by simp
qed

text \<open>
  \<^verbatim>\<open>M = float('nan')\<close> passes the check \<^verbatim>\<open>M <= 0\<close> as well. Every comparison with NaN is
  false, so neither the budget check nor the acceptance test ever succeeds: whatever is
  drawn, a loop in which no iteration raises never returns.
\<close>

lemma fdiv_NaN: "fdiv a NaN = NaN"
  by (cases a) simp_all

lemma nan_envelope_rejects:
  assumes "to_float M = NaN" and "draw_and_test E f g M t = (Inr (x, a), t')"
  shows "\<not> a"
proof -
  from assms(2) obtain u r s2 where p: "proposal f g M x s2 = (Inr r, t')"
    and a: "a = num_le (NpFloat u) r"
    unfolding draw_and_test_Inr by blast
  from p obtain fx d where r: "num_truediv fx (num_mul M d) = Inr r"
    unfolding proposal_Inr by blast
  have "to_float (num_mul M d) = NaN"
    using assms(1) by (simp add: to_float_num_mul)
  with r have "to_float r = NaN"
    by (auto simp: num_truediv_def fdiv_NaN split: if_splits)
  then have "\<not> num_le (NpFloat u) r"
    by (cases u) (simp_all add: num_le_def)
  with a show ?thesis by simp
qed

lemma nan_envelope_never_returns:
  assumes "to_float M = NaN" and "int n < N"
    and "\<forall>t. \<not> isl (fst (draw_and_test E f g M t))"
  shows "sampling_loop E f g M N n k samples s = None"
proof (cases "sampling_loop E f g M N n k samples s")
  case None
  then show ?thesis .
next
  case (Some y)
  have wb: "\<forall>j. within_budget M N j"
    using assms(1) by (simp add: within_budget_float)
  have rej: "\<exists>x t'. draw_and_test E f g M t = (Inr (x, False), t')" for t
  proof -
    obtain r t' where d: "draw_and_test E f g M t = (r, t')" by (cases "draw_and_test E f g M t")
    with assms(3) obtain x a where r: "r = Inr (x, a)"
      by (cases r) (auto dest: spec[of _ t])
    with d nan_envelope_rejects[OF assms(1), of E f g t x a t'] show ?thesis by simp
  qed
  from sampling_loop_never_returns[OF Some] wb rej assms(2) show ?thesis by blast
qed

text \<open>A call with \<^verbatim>\<open>M = float('nan')\<close> and a target that would accept the second candidate.\<close>

lemma nan_envelope_call:
  "validate_args (PFunction threshold_fn) (PProposal example_proposal)
      (PNum (PyFloat NaN)) (PNum (PyInt 1)) = Inr (example_proposal, PyFloat NaN, 1)
   \<and> rejection_sampler (example_env (Finite 7)) (PFunction threshold_fn)
        (PProposal example_proposal) (PNum (PyFloat NaN)) (PNum (PyInt 1)) 0 = None"
proof -
  let ?E = "example_env (Finite 7)"
  let ?f = "PFunction threshold_fn :: nat pyobj"
  have v: "validate_args ?f (PProposal example_proposal) (PNum (PyFloat NaN)) (PNum (PyInt 1))
      = Inr (example_proposal, PyFloat NaN, 1)"
    by (simp add: validate_args_def isinstance_def num_le_def)
  have b: "np_empty ?E (PNum (PyInt 1)) = Inr [Finite 7]"
    by (simp add: example_env_def fresh_buffer_def)
  have wb: "\<forall>j. within_budget (PyFloat NaN) 1 j"
    by (simp add: within_budget_float)
  have rej: "\<forall>t. \<exists>x t'. draw_and_test ?E ?f example_proposal (PyFloat NaN) t = (Inr (x, False), t')"
    by (simp add: draw_and_test_def proposal_def example_proposal_def call_attr_init_sample
      call_attr_init_density counting_sampler_def const_fn_def example_env_def half_uniform_def
      threshold_fn_def num_truediv_def num_le_def)
  have "sampling_loop ?E ?f example_proposal (PyFloat NaN) 1 0 0 [Finite 7] 0 = None"
  proof (cases "sampling_loop ?E ?f example_proposal (PyFloat NaN) 1 0 0 [Finite 7] 0")
    case None
    then show ?thesis .
  next
    case (Some y)
    from sampling_loop_never_returns[OF Some] wb rej show ?thesis by simp
  qed
  then have "rejection_sampler ?E ?f (PProposal example_proposal) (PNum (PyFloat NaN)) (PNum (PyInt 1)) 0 = None"
    by (simp add: rejection_sampler_def v b)
  with v show ?thesis by simp
qed

text \<open>
  Claim C2 says that the call returns however large \<open>M\<close> is and however unlikely an
  acceptance is. The code does not: with \<^verbatim>\<open>M = float('inf')\<close> and with
  \<^verbatim>\<open>M = float('nan')\<close> validation succeeds and the call never returns.
\<close>

theorem non_finite_envelope_never_returns:
  "validate_args (PFunction (const_fn (PyFloat (Finite 0)))) (PProposal example_proposal)
      (PNum (PyFloat PosInf)) (PNum (PyInt 1)) = Inr (example_proposal, PyFloat PosInf, 1)
   \<and> rejection_sampler (example_env (Finite 7)) (PFunction (const_fn (PyFloat (Finite 0))))
        (PProposal example_proposal) (PNum (PyFloat PosInf)) (PNum (PyInt 1)) 0 = None
   \<and> validate_args (PFunction threshold_fn) (PProposal example_proposal)
      (PNum (PyFloat NaN)) (PNum (PyInt 1)) = Inr (example_proposal, PyFloat NaN, 1)
   \<and> rejection_sampler (example_env (Finite 7)) (PFunction threshold_fn)
        (PProposal example_proposal) (PNum (PyFloat NaN)) (PNum (PyInt 1)) 0 = None"
  using infinite_envelope_call nan_envelope_call by blast

section \<open>Determinism\<close>

text \<open>
  A call that completes does not depend on what the fresh buffer holds: two worlds with
  the same generator give the same result.
\<close>

lemma draw_and_test_same_generator:
  "uniform_rvs E1 = uniform_rvs E2 \<Longrightarrow> draw_and_test E1 f g M s = draw_and_test E2 f g M s"
  by (auto simp: draw_and_test_def split: prod.splits sum.splits)

lemma state_before_same_generator:
  "uniform_rvs E1 = uniform_rvs E2 \<Longrightarrow> state_before E1 f g M s j = state_before E2 f g M s j"
proof (induction j)
  case 0
  show ?case by simp
next
  case (Suc j)
  then show ?case
    using draw_and_test_same_generator[OF Suc.prems, of f g M "state_before E2 f g M s j"] by simp
qed

lemma completes_after_same_generator:
  assumes "uniform_rvs E1 = uniform_rvs E2"
  shows "accepted_at E1 f g M s = accepted_at E2 f g M s"
    and "candidate_at E1 f g M s = candidate_at E2 f g M s"
    and "completes_after E1 f g M N s K = completes_after E2 f g M N s K"
proof -
  have d: "draw_and_test E1 f g M (state_before E1 f g M s j)
      = draw_and_test E2 f g M (state_before E2 f g M s j)" for j
    using draw_and_test_same_generator[OF assms, of f g M "state_before E2 f g M s j"]
      state_before_same_generator[OF assms, of f g M s j]
    by simp
  show a: "accepted_at E1 f g M s = accepted_at E2 f g M s"
    by (rule ext) (simp only: accepted_at_def d)
  show "candidate_at E1 f g M s = candidate_at E2 f g M s"
    by (rule ext) (simp only: candidate_at_def d)
  have "raises_at E1 f g M s = raises_at E2 f g M s"
    by (rule ext) (simp only: raises_at_def d)
  with a show "completes_after E1 f g M N s K = completes_after E2 f g M N s K"
    by (simp add: completes_after_def)
qed

lemma completed_call_same_result:
  assumes "validate_args f g M N = Inr (g', M', N')"
    and "np_empty E1 N = Inr buf1" and "int (length buf1) = N'"
    and "np_empty E2 N = Inr buf2" and "int (length buf2) = N'"
    and "uniform_rvs E1 = uniform_rvs E2"
    and "completes_after E1 f g' M' N' s K"
  shows "rejection_sampler E1 f g M N s = rejection_sampler E2 f g M N s"
proof -
  have c2: "completes_after E2 f g' M' N' s K"
    using assms(7) completes_after_same_generator(3)[OF assms(6)] by simp
  show ?thesis
    by (simp add: rejection_sampler_run[OF assms(1,2,3,7)] rejection_sampler_run[OF assms(1,4,5) c2]
        completes_after_same_generator(1,2)[OF assms(6)] state_before_same_generator[OF assms(6)])
qed

text \<open>
  Claim C7 says that the output depends on the arguments and the state of the generator
  alone. On the early exit the code returns the buffer of \<^verbatim>\<open>numpy.empty\<close> with its unfilled
  entries as they were allocated. With \<^verbatim>\<open>f = lambda x: 0.0\<close>, \<^verbatim>\<open>M = 1\<close>, \<^verbatim>\<open>N = 1\<close> and a
  generator that draws \<open>1/2\<close>, two iterations reject, the budget check stops the loop, and
  the result is the fresh buffer: two calls with the same arguments and the same generator
  state return different arrays when the fresh memory differs.
\<close>

theorem early_exit_returns_fresh_memory:
  "uniform_rvs (example_env (Finite 7)) = uniform_rvs (example_env (Finite 8))
   \<and> rejection_sampler (example_env (Finite 7)) (PFunction (const_fn (PyFloat (Finite 0))))
        (PProposal example_proposal) (PNum (PyInt 1)) (PNum (PyInt 1)) 0 = Some (Inr [Finite 7], 4)
   \<and> rejection_sampler (example_env (Finite 8)) (PFunction (const_fn (PyFloat (Finite 0))))
        (PProposal example_proposal) (PNum (PyInt 1)) (PNum (PyInt 1)) 0 = Some (Inr [Finite 8], 4)"
proof (intro conjI)
  show "uniform_rvs (example_env (Finite 7)) = uniform_rvs (example_env (Finite 8))"
    by (simp add: example_env_def)
  show "rejection_sampler (example_env (Finite 7)) (PFunction (const_fn (PyFloat (Finite 0))))
        (PProposal example_proposal) (PNum (PyInt 1)) (PNum (PyInt 1)) 0 = Some (Inr [Finite 7], 4)"
    by code_simp
  show "rejection_sampler (example_env (Finite 8)) (PFunction (const_fn (PyFloat (Finite 0))))
        (PProposal example_proposal) (PNum (PyInt 1)) (PNum (PyInt 1)) 0 = Some (Inr [Finite 8], 4)"
    by code_simp
qed

end
